theory Spec2Isabelle
  imports Main
begin

section \<open>Product catalog service: data model\<close>

text \<open>
  The embedding follows the NestJS sources: the entity class \<open>Product\<close>
  (product.entity.ts), the request classes \<open>CreateProductDto\<close> and \<open>UpdateProductDto\<close>,
  the global \<open>ValidationPipe\<close> of main.ts, \<open>ProductsService\<close> and \<open>ProductsController\<close>.
  The TypeORM repository and the PostgreSQL table behind it are modelled as a table of
  rows with its id sequence, passed explicitly through every operation. Timestamps are
  integers (milliseconds); the current time of the database is a parameter \<open>now\<close> of
  every operation that writes. A string is a list of characters, and its \<open>length\<close>
  is the number of characters that class-validator's length checks count.
\<close>

text \<open>A row of the table \<open>products\<close>: every column is \<open>nullable: false\<close>.\<close>

record row =
  row_id :: int
  row_title :: string
  row_description :: string
  row_created_at :: int
  row_updated_at :: int

text \<open>
  An instance of the entity class \<open>Product\<close>. The generated columns (\<open>id\<close>,
  \<open>created_at\<close>, \<open>updated_at\<close>) are undefined (\<open>None\<close>) on an instance that has not
  been written yet; \<open>id\<close> is called \<open>product_id\<close> here, since \<open>id\<close> is the
  identity function of HOL.
\<close>

record Product =
  product_id :: "int option"
  title :: string
  description :: string
  created_at :: "int option"
  updated_at :: "int option"

text \<open>The table with the last value of its sequence \<open>products_id_seq\<close>.\<close>

record database =
  rows :: "row list"
  seq :: int

definition empty_database :: database where
  "empty_database = \<lparr>rows = [], seq = 0\<rparr>"

text \<open>
  \<open>ValidationError\<close> is the BadRequestException of the ValidationPipe, with the names
  of the offending properties; \<open>NotFound\<close> is
  \<open>HttpException("Product not found", HttpStatus.NOT_FOUND)\<close>; \<open>StorageError\<close> is a
  query that the database rejects (QueryFailedError): the service catches nothing, so
  the request ends with status 500.
\<close>

datatype error = ValidationError "string list" | NotFound | StorageError

section \<open>Request validation\<close>

text \<open>
  A request body is a JSON object, given by its members in the order of the text;
  \<open>JSON.parse\<close> keeps the last member of a repeated name.
\<close>

datatype json =
    JString string
  | JNumber int
  | JBool bool
  | JNull
  | JArray "json list"
  | JObject "(string \<times> json) list"

type_synonym body = "(string \<times> json) list"

definition property :: "body \<Rightarrow> string \<Rightarrow> json option" where
  "property b k = map_of (rev b) k"

text \<open>The class-validator decorators the two request classes use.\<close>

datatype decorator = IsString | MinLength nat | MaxLength nat

type_synonym metadata = "(string \<times> decorator list) list"

text \<open>
  \<open>CreateProductDto\<close>: \<open>title\<close> with \<open>@IsString() @MinLength(6) @MaxLength(32)\<close>,
  \<open>description\<close> with \<open>@IsString() @MinLength(32) @MaxLength(1024)\<close>.
\<close>

definition CreateProductDto_metadata :: metadata where
  "CreateProductDto_metadata =
     [(''title'', [IsString, MinLength 6, MaxLength 32]),
      (''description'', [IsString, MinLength 32, MaxLength 1024])]"

text \<open>
  \<open>export class UpdateProductDto extends CreateProductDto {}\<close>: the subclass declares
  nothing and inherits both properties with their decorators.
\<close>

definition UpdateProductDto_metadata :: metadata where
  "UpdateProductDto_metadata = CreateProductDto_metadata"

record CreateProductDto =
  dto_title :: string
  dto_description :: string

type_synonym UpdateProductDto = CreateProductDto

text \<open>
  A decorator applied to the value of a property; \<open>None\<close> is a property the body does
  not have. None of the three accepts an undefined value or a value that is not a
  string, and no property is marked \<open>@IsOptional()\<close>.
\<close>

fun holds :: "decorator \<Rightarrow> json option \<Rightarrow> bool" where
  "holds IsString v = (case v of Some (JString s) \<Rightarrow> True | _ \<Rightarrow> False)"
| "holds (MinLength n) v = (case v of Some (JString s) \<Rightarrow> n \<le> length s | _ \<Rightarrow> False)"
| "holds (MaxLength n) v = (case v of Some (JString s) \<Rightarrow> length s \<le> n | _ \<Rightarrow> False)"

text \<open>
  \<open>whitelist: true, forbidNonWhitelisted: true\<close>: a property of the body that the class
  does not declare is an error (instead of being stripped).
\<close>

definition non_whitelisted :: "metadata \<Rightarrow> body \<Rightarrow> string list" where
  "non_whitelisted md b = filter (\<lambda>k. k \<notin> set (map fst md)) (map fst b)"

definition failing :: "metadata \<Rightarrow> body \<Rightarrow> string list" where
  "failing md b = map fst (filter (\<lambda>(k, ds). \<not> list_all (\<lambda>d. holds d (property b k)) ds) md)"

definition validate :: "metadata \<Rightarrow> body \<Rightarrow> string list" where
  "validate md b = non_whitelisted md b @ failing md b"

text \<open>\<open>transform: true\<close>: the body becomes an instance of the request class.\<close>

definition plainToInstance :: "body \<Rightarrow> CreateProductDto option" where
  "plainToInstance b =
     (case (property b ''title'', property b ''description'') of
        (Some (JString t), Some (JString d)) \<Rightarrow> Some \<lparr>dto_title = t, dto_description = d\<rparr>
      | _ \<Rightarrow> None)"

text \<open>
  The pipe: the errors of \<open>validate\<close>, if any, are thrown as one exception before the
  handler runs; otherwise the handler receives the instance.
\<close>

definition ValidationPipe :: "metadata \<Rightarrow> body \<Rightarrow> error + CreateProductDto" where
  "ValidationPipe md b =
     (if validate md b \<noteq> [] then Inl (ValidationError (validate md b))
      else case plainToInstance b of
             Some dto \<Rightarrow> Inr dto
           | None \<Rightarrow> Inl (ValidationError (map fst md)))"

section \<open>The repository\<close>

text \<open>
  The column \<open>id\<close> of \<open>@PrimaryGeneratedColumn()\<close> is a PostgreSQL \<open>integer\<close> fed by
  a sequence of the same type: a query with an id outside 32 bits is rejected.
\<close>

definition int4 :: "int \<Rightarrow> bool" where
  "int4 i = (- 2147483648 \<le> i \<and> i \<le> 2147483647)"

text \<open>PostgreSQL rejects a text value that contains the character U+0000.\<close>

definition text_ok :: "string \<Rightarrow> bool" where
  "text_ok s = (CHR 0x00 \<notin> set s)"

definition storable :: "Product \<Rightarrow> bool" where
  "storable p = (text_ok (title p) \<and> text_ok (description p))"

text \<open>An entity instance as TypeORM loads it from a row.\<close>

definition hydrate :: "row \<Rightarrow> Product" where
  "hydrate r =
     \<lparr>product_id = Some (row_id r), title = row_title r, description = row_description r,
      created_at = Some (row_created_at r), updated_at = Some (row_updated_at r)\<rparr>"

definition lookup_row :: "int \<Rightarrow> database \<Rightarrow> row option" where
  "lookup_row i db = find (\<lambda>r. row_id r = i) (rows db)"

text \<open>\<open>find()\<close>: every row.\<close>

definition Repository_find :: "database \<Rightarrow> Product list" where
  "Repository_find db = map hydrate (rows db)"

text \<open>
  \<open>findOne({ where: { id } })\<close>: the row with this id, or null; the query fails for an
  id that is no \<open>integer\<close> of the database.
\<close>

definition Repository_findOne :: "int \<Rightarrow> database \<Rightarrow> error + Product option" where
  "Repository_findOne i db =
     (if int4 i then Inr (map_option hydrate (lookup_row i db)) else Inl StorageError)"

text \<open>\<open>create(dto)\<close>: a new instance with the properties of the dto; nothing is written.\<close>

definition Repository_create :: "CreateProductDto \<Rightarrow> Product" where
  "Repository_create dto =
     \<lparr>product_id = None, title = dto_title dto, description = dto_description dto,
      created_at = None, updated_at = None\<rparr>"

text \<open>
  \<open>preload(entityLike)\<close>: loads the entity with the id of \<open>entityLike\<close> and replaces its
  values by the defined ones of \<open>entityLike\<close>; undefined when the id is missing or has no
  row. It fails as \<open>findOne\<close> does.
\<close>

definition Repository_preload :: "Product \<Rightarrow> database \<Rightarrow> error + Product option" where
  "Repository_preload like db =
     (case product_id like of
        None \<Rightarrow> Inr None
      | Some i \<Rightarrow>
          (case Repository_findOne i db of
             Inl e \<Rightarrow> Inl e
           | Inr None \<Rightarrow> Inr None
           | Inr (Some loaded) \<Rightarrow>
               Inr (Some \<lparr>product_id = Some i, title = title like, description = description like,
                     created_at = (case created_at like of None \<Rightarrow> created_at loaded | Some c \<Rightarrow> Some c),
                     updated_at = (case updated_at like of None \<Rightarrow> updated_at loaded | Some u \<Rightarrow> Some u)\<rparr>)))"

text \<open>
  INSERT of an instance under the id \<open>i\<close>. A column the instance leaves undefined takes
  its default, which is \<open>now()\<close> for both date columns. The statement is rejected,
  and nothing is stored, when a text contains U+0000, when the id is no \<open>integer\<close>, and
  when the table already has the id (primary key).
\<close>

definition insert_row :: "int \<Rightarrow> Product \<Rightarrow> int \<Rightarrow> database \<Rightarrow> (error + Product) \<times> database" where
  "insert_row i p now db =
     (if \<not> storable p \<or> \<not> int4 i then (Inl StorageError, db)
      else if list_ex (\<lambda>r. row_id r = i) (rows db) then (Inl StorageError, db)
      else
        let r = \<lparr>row_id = i, row_title = title p, row_description = description p,
                 row_created_at = (case created_at p of None \<Rightarrow> now | Some c \<Rightarrow> c),
                 row_updated_at = (case updated_at p of None \<Rightarrow> now | Some u \<Rightarrow> u)\<rparr>
        in (Inr (hydrate r), db\<lparr>rows := rows db @ [r]\<rparr>))"

text \<open>
  UPDATE of the row \<open>r\<close> that has the id of the instance. TypeORM compares the defined
  columns of the instance with the row: when none differs, no query is issued and the
  instance is returned as it is; otherwise the changed columns are written and
  \<open>updated_at\<close> is set to the current time, unless the instance itself brings a new
  \<open>updated_at\<close>. The statement is rejected when a text it writes contains U+0000.
\<close>

definition update_row :: "row \<Rightarrow> Product \<Rightarrow> int \<Rightarrow> database \<Rightarrow> (error + Product) \<times> database" where
  "update_row r p now db =
     (let c = (case created_at p of None \<Rightarrow> row_created_at r | Some c \<Rightarrow> c);
          u_given = (case updated_at p of None \<Rightarrow> row_updated_at r | Some u \<Rightarrow> u);
          changed = (title p \<noteq> row_title r \<or> description p \<noteq> row_description r \<or>
                     c \<noteq> row_created_at r \<or> u_given \<noteq> row_updated_at r)
      in if \<not> changed then (Inr p, db)
         else if (title p \<noteq> row_title r \<and> \<not> text_ok (title p)) \<or>
                 (description p \<noteq> row_description r \<and> \<not> text_ok (description p))
         then (Inl StorageError, db)
         else
           let u = (if u_given \<noteq> row_updated_at r then u_given else now);
               r' = r\<lparr>row_title := title p, row_description := description p,
                      row_created_at := c, row_updated_at := u\<rparr>
           in (Inr (p\<lparr>updated_at := Some u\<rparr>),
               db\<lparr>rows := map (\<lambda>x. if row_id x = row_id r then r' else x) (rows db)\<rparr>))"

text \<open>
  \<open>save(entity)\<close>: an instance without id is inserted under the next value of the
  sequence; an instance with an id is looked up, updated when the table has its row and
  inserted under its own id otherwise. The saved instance is returned with its
  generated columns. The sequence does not advance when the INSERT is rejected for its
  texts or when the sequence is exhausted; it does when the primary key rejects the
  row.
\<close>

definition Repository_save :: "Product \<Rightarrow> int \<Rightarrow> database \<Rightarrow> (error + Product) \<times> database" where
  "Repository_save p now db =
     (case product_id p of
        None \<Rightarrow>
          (if \<not> storable p \<or> \<not> int4 (seq db + 1) then (Inl StorageError, db)
           else insert_row (seq db + 1) p now (db\<lparr>seq := seq db + 1\<rparr>))
      | Some i \<Rightarrow>
          (if \<not> int4 i then (Inl StorageError, db)
           else case lookup_row i db of
                  None \<Rightarrow> insert_row i p now db
                | Some r \<Rightarrow> update_row r p now db))"

text \<open>
  \<open>remove(entity)\<close>: deletes the row with the id of the instance and returns the same
  instance, on which TypeORM has reset the primary column to undefined. An instance
  without id cannot be removed, and the query fails for an id that is no \<open>integer\<close>
  of the database.
\<close>

definition Repository_remove :: "Product \<Rightarrow> database \<Rightarrow> (error + Product) \<times> database" where
  "Repository_remove p db =
     (case product_id p of
        None \<Rightarrow> (Inl StorageError, db)
      | Some i \<Rightarrow>
          (if \<not> int4 i then (Inl StorageError, db)
           else (Inr (p\<lparr>product_id := None\<rparr>),
                 db\<lparr>rows := filter (\<lambda>r. row_id r \<noteq> i) (rows db)\<rparr>)))"

section \<open>ProductsService\<close>

text \<open>
  The methods await the repository and catch nothing: an error of a query leaves the
  method as it is, and only a missing record is turned into NotFound.
\<close>

definition getProducts :: "database \<Rightarrow> Product list \<times> database" where
  "getProducts db = (Repository_find db, db)"

definition getProduct :: "int \<Rightarrow> database \<Rightarrow> (error + Product) \<times> database" where
  "getProduct i db =
     (case Repository_findOne i db of
        Inl e \<Rightarrow> (Inl e, db)
      | Inr None \<Rightarrow> (Inl NotFound, db)
      | Inr (Some product) \<Rightarrow> (Inr product, db))"

definition createProduct :: "CreateProductDto \<Rightarrow> int \<Rightarrow> database \<Rightarrow> (error + Product) \<times> database" where
  "createProduct createProductDto now db =
     Repository_save (Repository_create createProductDto) now db"

text \<open>\<open>preload({ id, ...updateProductDto })\<close>, then \<open>save\<close>.\<close>

definition updateProduct ::
  "int \<Rightarrow> UpdateProductDto \<Rightarrow> int \<Rightarrow> database \<Rightarrow> (error + Product) \<times> database" where
  "updateProduct i updateProductDto now db =
     (case Repository_preload
             \<lparr>product_id = Some i, title = dto_title updateProductDto,
              description = dto_description updateProductDto,
              created_at = None, updated_at = None\<rparr> db of
        Inl e \<Rightarrow> (Inl e, db)
      | Inr None \<Rightarrow> (Inl NotFound, db)
      | Inr (Some product) \<Rightarrow> Repository_save product now db)"

definition deleteProduct :: "int \<Rightarrow> database \<Rightarrow> (error + Product) \<times> database" where
  "deleteProduct i db =
     (case getProduct i db of
        (Inl e, db') \<Rightarrow> (Inl e, db')
      | (Inr post, db') \<Rightarrow> Repository_remove post db')"

section \<open>ProductsController behind the global ValidationPipe\<close>

definition Controller_getProducts :: "database \<Rightarrow> Product list \<times> database" where
  "Controller_getProducts db = getProducts db"

definition Controller_getProduct :: "int \<Rightarrow> database \<Rightarrow> (error + Product) \<times> database" where
  "Controller_getProduct i db = getProduct i db"

definition Controller_createProduct :: "body \<Rightarrow> int \<Rightarrow> database \<Rightarrow> (error + Product) \<times> database" where
  "Controller_createProduct b now db =
     (case ValidationPipe CreateProductDto_metadata b of
        Inl e \<Rightarrow> (Inl e, db)
      | Inr createProductDto \<Rightarrow> createProduct createProductDto now db)"

definition Controller_updateProduct ::
  "int \<Rightarrow> body \<Rightarrow> int \<Rightarrow> database \<Rightarrow> (error + Product) \<times> database" where
  "Controller_updateProduct i b now db =
     (case ValidationPipe UpdateProductDto_metadata b of
        Inl e \<Rightarrow> (Inl e, db)
      | Inr updateProductDto \<Rightarrow> updateProduct i updateProductDto now db)"

definition Controller_deleteProduct :: "int \<Rightarrow> database \<Rightarrow> (error + Product) \<times> database" where
  "Controller_deleteProduct i db = deleteProduct i db"

section \<open>Requests and runs\<close>

text \<open>The five routes of the controller.\<close>

datatype request =
    GetProducts
  | GetProduct int
  | CreateProduct body
  | UpdateProduct int body
  | DeleteProduct int

text \<open>The database after a request that the server handles at time \<open>now\<close>.\<close>

definition handle :: "request \<Rightarrow> int \<Rightarrow> database \<Rightarrow> database" where
  "handle req now db =
     (case req of
        GetProducts \<Rightarrow> snd (Controller_getProducts db)
      | GetProduct i \<Rightarrow> snd (Controller_getProduct i db)
      | CreateProduct b \<Rightarrow> snd (Controller_createProduct b now db)
      | UpdateProduct i b \<Rightarrow> snd (Controller_updateProduct i b now db)
      | DeleteProduct i \<Rightarrow> snd (Controller_deleteProduct i db))"

fun run :: "(int \<times> request) list \<Rightarrow> database \<Rightarrow> database" where
  "run [] db = db"
| "run ((now, req) # reqs) db = run reqs (handle req now db)"

text \<open>
  The properties of a stored row that the data model promises: the length bounds of
  \<open>title\<close> and \<open>description\<close>, and \<open>updated_at >= created_at\<close>.
\<close>

definition row_ok :: "row \<Rightarrow> bool" where
  "row_ok r =
     (6 \<le> length (row_title r) \<and> length (row_title r) \<le> 32 \<and>
      32 \<le> length (row_description r) \<and> length (row_description r) \<le> 1024 \<and>
      row_created_at r \<le> row_updated_at r)"

text \<open>The sequence is ahead of every id of the table, as it is when it generated them.\<close>

definition seq_ahead :: "database \<Rightarrow> bool" where
  "seq_ahead db = list_all (\<lambda>r. row_id r \<le> seq db) (rows db)"

text \<open>
  The invariant of the table at time \<open>t\<close>: every row is as the data model promises
  and was last written at \<open>t\<close> or before.
\<close>

definition rows_ok_until :: "int \<Rightarrow> database \<Rightarrow> bool" where
  "rows_ok_until t db = list_all (\<lambda>r. row_ok r \<and> row_updated_at r \<le> t) (rows db)"

subsection \<open>The update of the design, through the lookup of Get\<close>

text \<open>
  The design's words for Update: load the current record by id as Get does (fail with
  NotFound if absent), merge the fields of the input onto it, persist.
\<close>

definition Update_via_Get ::
  "int \<Rightarrow> UpdateProductDto \<Rightarrow> int \<Rightarrow> database \<Rightarrow> (error + Product) \<times> database" where
  "Update_via_Get i input now db =
     (case getProduct i db of
        (Inl e, db') \<Rightarrow> (Inl e, db')
      | (Inr current, db') \<Rightarrow>
          Repository_save (current\<lparr>title := dto_title input, description := dto_description input\<rparr>)
            now db')"

subsection \<open>Concrete data\<close>

definition speaker_body :: body where
  "speaker_body =
     [(''title'', JString ''Speaker A''),
      (''description'', JString ''A bookshelf speaker with a warm sound..'')]"

definition speaker_row :: row where
  "speaker_row =
     \<lparr>row_id = 1, row_title = ''Speaker A'',
      row_description = ''A bookshelf speaker with a warm sound..'',
      row_created_at = 100, row_updated_at = 100\<rparr>"

definition speaker_db :: database where
  "speaker_db = \<lparr>rows = [speaker_row], seq = 1\<rparr>"

definition speaker_b_body :: body where
  "speaker_b_body =
     [(''title'', JString ''Speaker B''),
      (''description'', JString ''A bookshelf speaker with a warm sound..'')]"

definition speaker_b_row :: row where
  "speaker_b_row =
     \<lparr>row_id = 1, row_title = ''Speaker B'',
      row_description = ''A bookshelf speaker with a warm sound..'',
      row_created_at = 100, row_updated_at = 200\<rparr>"

text \<open>A session: create, update the title, look the record up, delete a missing id.\<close>

definition session :: "(int \<times> request) list" where
  "session =
     [(100, CreateProduct speaker_body),
      (200, UpdateProduct 1 speaker_b_body),
      (250, GetProduct 1),
      (300, DeleteProduct 5)]"

section \<open>Lemmas on the repository and the pipe\<close>

lemma lookup_row_None: "(lookup_row i db = None) = (i \<notin> set (map row_id (rows db)))"
  by (auto simp: lookup_row_def find_None_iff)

lemma lookup_row_Some: "lookup_row i db = Some r \<Longrightarrow> r \<in> set (rows db) \<and> row_id r = i"
  by (auto simp: lookup_row_def find_Some_iff)

lemma findOne_absent:
  assumes "int4 i" and "i \<notin> set (map row_id (rows db))"
  shows "Repository_findOne i db = Inr None"
  using assms lookup_row_None [of i db] by (simp add: Repository_findOne_def)

lemma findOne_out_of_range:
  assumes "\<not> int4 i"
  shows "Repository_findOne i db = Inl StorageError"
  using assms by (simp add: Repository_findOne_def)

lemma validate_Create:
  "(validate CreateProductDto_metadata b = []) =
     (set (map fst b) \<subseteq> {''title'', ''description''} \<and>
      (\<exists>t d. property b ''title'' = Some (JString t) \<and> 6 \<le> length t \<and> length t \<le> 32 \<and>
             property b ''description'' = Some (JString d) \<and> 32 \<le> length d \<and> length d \<le> 1024))"
  by (auto simp: validate_def non_whitelisted_def failing_def CreateProductDto_metadata_def
        filter_empty_conv split: option.splits json.splits)

lemma ValidationPipe_Inr:
  "(ValidationPipe CreateProductDto_metadata b = Inr dto) =
     (set (map fst b) \<subseteq> {''title'', ''description''} \<and>
      property b ''title'' = Some (JString (dto_title dto)) \<and>
      6 \<le> length (dto_title dto) \<and> length (dto_title dto) \<le> 32 \<and>
      property b ''description'' = Some (JString (dto_description dto)) \<and>
      32 \<le> length (dto_description dto) \<and> length (dto_description dto) \<le> 1024)"
  unfolding ValidationPipe_def validate_Create
  by (auto simp: plainToInstance_def split: option.splits json.splits)

text \<open>A body without errors has both strings: the last branch of the pipe is never taken.\<close>

lemma validated_has_instance:
  assumes "validate CreateProductDto_metadata b = []"
  shows "plainToInstance b \<noteq> None"
  using assms unfolding validate_Create
  by (auto simp: plainToInstance_def)

lemma ValidationPipe_Inl:
  "ValidationPipe md b = Inl e \<Longrightarrow> \<exists>fs. e = ValidationError fs"
  by (auto simp: ValidationPipe_def split: if_splits option.splits)

lemma ValidationPipe_rejects:
  assumes "validate md b \<noteq> []"
  shows "ValidationPipe md b = Inl (ValidationError (validate md b))"
  using assms by (simp add: ValidationPipe_def)

subsection \<open>An id without row\<close>

lemma getProduct_absent:
  assumes "int4 i" and "i \<notin> set (map row_id (rows db))"
  shows "getProduct i db = (Inl NotFound, db)"
  by (simp add: getProduct_def findOne_absent [OF assms])

lemma updateProduct_absent:
  assumes "int4 i" and "i \<notin> set (map row_id (rows db))"
  shows "updateProduct i dto now db = (Inl NotFound, db)"
  by (simp add: updateProduct_def Repository_preload_def findOne_absent [OF assms])

lemma deleteProduct_absent:
  assumes "int4 i" and "i \<notin> set (map row_id (rows db))"
  shows "deleteProduct i db = (Inl NotFound, db)"
  by (simp add: deleteProduct_def getProduct_absent [OF assms])

subsection \<open>An id that is no integer of the database\<close>

lemma getProduct_out_of_range:
  assumes "\<not> int4 i"
  shows "getProduct i db = (Inl StorageError, db)"
  by (simp add: getProduct_def findOne_out_of_range [OF assms])

lemma updateProduct_out_of_range:
  assumes "\<not> int4 i"
  shows "updateProduct i dto now db = (Inl StorageError, db)"
  by (simp add: updateProduct_def Repository_preload_def findOne_out_of_range [OF assms])

lemma deleteProduct_out_of_range:
  assumes "\<not> int4 i"
  shows "deleteProduct i db = (Inl StorageError, db)"
  by (simp add: deleteProduct_def getProduct_out_of_range [OF assms])

subsection \<open>An id with its row\<close>

lemma getProduct_present:
  assumes "int4 i" and "lookup_row i db = Some r"
  shows "getProduct i db = (Inr (hydrate r), db)"
  using assms by (simp add: getProduct_def Repository_findOne_def)

lemma update_row_found: "fst (update_row r p now db) \<noteq> Inl NotFound"
  by (simp add: update_row_def Let_def)

lemma updateProduct_present:
  assumes "int4 i" and "lookup_row i db = Some r"
  shows "updateProduct i dto now db =
           update_row r ((hydrate r)\<lparr>title := dto_title dto, description := dto_description dto\<rparr>) now db"
  using assms lookup_row_Some [OF assms(2)]
  by (simp add: updateProduct_def Repository_preload_def Repository_findOne_def
        Repository_save_def hydrate_def)

lemma deleteProduct_present:
  assumes "int4 i" and "lookup_row i db = Some r"
  shows "deleteProduct i db =
           (Inr ((hydrate r)\<lparr>product_id := None\<rparr>), db\<lparr>rows := filter (\<lambda>x. row_id x \<noteq> i) (rows db)\<rparr>)"
  using assms lookup_row_Some [OF assms(2)]
  by (simp add: deleteProduct_def getProduct_present Repository_remove_def hydrate_def)

section \<open>Missing records\<close>

text \<open>
  Claim C2, as stated, fails: the id 2147483648 has no record, and Get, Update and
  Delete do not fail with NotFound there. The lookup is rejected by the database, whose
  id column is a 32-bit integer, and the request ends with a storage error.
\<close>

theorem absent_id_out_of_range_counterexample:
  "2147483648 \<notin> set (map row_id (rows speaker_db)) \<and>
   fst (Controller_getProduct 2147483648 speaker_db) = Inl StorageError \<and>
   fst (updateProduct 2147483648
          \<lparr>dto_title = ''Speaker B'',
           dto_description = ''A bookshelf speaker with a warm sound..''\<rparr> 200 speaker_db)
     = Inl StorageError \<and>
   fst (Controller_deleteProduct 2147483648 speaker_db) = Inl StorageError"
  by (simp add: Controller_getProduct_def Controller_deleteProduct_def getProduct_out_of_range
        updateProduct_out_of_range deleteProduct_out_of_range int4_def speaker_db_def
        speaker_row_def)

text \<open>
  Claim C2, amended. For every id that has no corresponding record in storage: when
  the id is within the range of the integer id column (-2147483648 to 2147483647), Get
  fails with NotFound, Update fails with NotFound for every input of the service (and,
  through the controller, for every body that the pipe accepts), and Delete fails with
  NotFound; when the id is outside that range, the three fail with a storage error
  instead.
\<close>

theorem absent_id_NotFound:
  assumes "i \<notin> set (map row_id (rows db))"
  shows "(int4 i \<longrightarrow>
            fst (Controller_getProduct i db) = Inl NotFound \<and>
            (\<forall>input now. fst (updateProduct i input now db) = Inl NotFound) \<and>
            (\<forall>b input now. ValidationPipe UpdateProductDto_metadata b = Inr input \<longrightarrow>
                 fst (Controller_updateProduct i b now db) = Inl NotFound) \<and>
            fst (Controller_deleteProduct i db) = Inl NotFound) \<and>
         (\<not> int4 i \<longrightarrow>
            fst (Controller_getProduct i db) = Inl StorageError \<and>
            (\<forall>input now. fst (updateProduct i input now db) = Inl StorageError) \<and>
            (\<forall>b input now. ValidationPipe UpdateProductDto_metadata b = Inr input \<longrightarrow>
                 fst (Controller_updateProduct i b now db) = Inl StorageError) \<and>
            fst (Controller_deleteProduct i db) = Inl StorageError)"
  using assms
  by (simp add: Controller_getProduct_def Controller_deleteProduct_def Controller_updateProduct_def
        getProduct_absent updateProduct_absent deleteProduct_absent
        getProduct_out_of_range updateProduct_out_of_range deleteProduct_out_of_range)

theorem absent_id_NotFound_witness:
  "7 \<notin> set (map row_id (rows speaker_db)) \<and> int4 7 \<and>
   fst (Controller_getProduct 7 speaker_db) = Inl NotFound \<and>
   fst (updateProduct 7 \<lparr>dto_title = ''x'', dto_description = ''y''\<rparr> 200 speaker_db) = Inl NotFound \<and>
   fst (Controller_updateProduct 7 speaker_body 200 speaker_db) = Inl NotFound \<and>
   fst (Controller_deleteProduct 7 speaker_db) = Inl NotFound \<and>
   - 2147483649 \<notin> set (map row_id (rows speaker_db)) \<and> \<not> int4 (- 2147483649) \<and>
   fst (Controller_getProduct (- 2147483649) speaker_db) = Inl StorageError \<and>
   fst (Controller_updateProduct (- 2147483649) speaker_body 200 speaker_db) = Inl StorageError \<and>
   fst (Controller_deleteProduct (- 2147483649) speaker_db) = Inl StorageError"
proof -
  have absent: "7 \<notin> set (map row_id (rows speaker_db))"
    "- 2147483649 \<notin> set (map row_id (rows speaker_db))"
    by (simp_all add: speaker_db_def speaker_row_def)
  have range: "int4 7" "\<not> int4 (- 2147483649)"
    by (simp_all add: int4_def)
  have valid: "ValidationPipe UpdateProductDto_metadata speaker_body =
                 Inr \<lparr>dto_title = ''Speaker A'',
                      dto_description = ''A bookshelf speaker with a warm sound..''\<rparr>"
    by (simp add: UpdateProductDto_metadata_def ValidationPipe_Inr speaker_body_def property_def)
  from absent_id_NotFound [OF absent(1)] absent_id_NotFound [OF absent(2)] valid absent range
  show ?thesis
    by blast
qed

text \<open>
  Claim C10. Whenever Update or Delete fails with NotFound, the database is as it was;
  and when no row of the table has the id, Update (in the service for every input,
  through the controller for every body) and Delete leave the database as it was, with
  NotFound for every id that the database can look up: no row is created, modified or
  removed.
\<close>

theorem NotFound_leaves_storage:
  "(fst (updateProduct i input now db) = Inl NotFound \<longrightarrow>
      snd (updateProduct i input now db) = db) \<and>
   (fst (Controller_updateProduct i b now db) = Inl NotFound \<longrightarrow>
      snd (Controller_updateProduct i b now db) = db) \<and>
   (fst (Controller_deleteProduct i db) = Inl NotFound \<longrightarrow>
      snd (Controller_deleteProduct i db) = db) \<and>
   (i \<notin> set (map row_id (rows db)) \<longrightarrow>
      snd (updateProduct i input now db) = db \<and>
      snd (Controller_updateProduct i b now db) = db \<and>
      snd (Controller_deleteProduct i db) = db \<and>
      (int4 i \<longrightarrow>
         updateProduct i input now db = (Inl NotFound, db) \<and>
         Controller_deleteProduct i db = (Inl NotFound, db)))"
proof (cases "int4 i")
  case False
  then show ?thesis
    by (simp add: Controller_deleteProduct_def Controller_updateProduct_def
          updateProduct_out_of_range deleteProduct_out_of_range split: sum.splits)
next
  case True
  show ?thesis
  proof (cases "lookup_row i db")
    case None
    then have "i \<notin> set (map row_id (rows db))"
      by (simp add: lookup_row_None)
    with True show ?thesis
      by (simp add: Controller_deleteProduct_def Controller_updateProduct_def
            updateProduct_absent deleteProduct_absent split: sum.splits)
  next
    case (Some r)
    have present: "i \<in> set (map row_id (rows db))"
      using lookup_row_None [of i db] Some by auto
    have upd: "fst (updateProduct i dto now db) \<noteq> Inl NotFound" for dto
      by (simp add: updateProduct_present [OF True Some] update_row_found)
    have del: "fst (deleteProduct i db) \<noteq> Inl NotFound"
      by (simp add: deleteProduct_present [OF True Some])
    have ctl: "fst (Controller_updateProduct i b now db) = Inl NotFound \<longrightarrow>
               snd (Controller_updateProduct i b now db) = db"
      using upd by (auto simp: Controller_updateProduct_def split: sum.splits)
    from present upd del ctl show ?thesis
      by (simp add: Controller_deleteProduct_def)
  qed
qed

theorem NotFound_leaves_storage_witness:
  "7 \<notin> set (map row_id (rows speaker_db)) \<and> int4 7 \<and>
   updateProduct 7 \<lparr>dto_title = ''Speaker B'', dto_description = ''''\<rparr> 200 speaker_db
     = (Inl NotFound, speaker_db) \<and>
   snd (Controller_updateProduct 7 speaker_body 200 speaker_db) = speaker_db \<and>
   Controller_deleteProduct 7 speaker_db = (Inl NotFound, speaker_db)"
proof -
  have absent: "7 \<notin> set (map row_id (rows speaker_db))"
    by (simp add: speaker_db_def speaker_row_def)
  have range: "int4 7"
    by (simp add: int4_def)
  from NotFound_leaves_storage [of 7 _ 200 speaker_db speaker_body] absent range show ?thesis
    by blast
qed

text \<open>
  Claim C7. For every id and database, Update reports NotFound exactly when Get does,
  and so does Delete; the update of the service, which checks through \<open>preload\<close>,
  is the same function as the update that looks the record up as Get does.
\<close>

theorem NotFound_condition_shared:
  "(fst (updateProduct i input now db) = Inl NotFound) = (fst (getProduct i db) = Inl NotFound) \<and>
   (fst (deleteProduct i db) = Inl NotFound) = (fst (getProduct i db) = Inl NotFound) \<and>
   updateProduct i input now db = Update_via_Get i input now db"
proof (cases "int4 i")
  case False
  then show ?thesis
    by (simp add: updateProduct_out_of_range getProduct_out_of_range deleteProduct_out_of_range
          Update_via_Get_def)
next
  case True
  show ?thesis
  proof (cases "lookup_row i db")
    case None
    then have absent: "i \<notin> set (map row_id (rows db))"
      by (simp add: lookup_row_None)
    with True show ?thesis
      by (simp add: updateProduct_absent getProduct_absent deleteProduct_absent Update_via_Get_def)
  next
    case (Some r)
    have upd: "fst (updateProduct i input now db) \<noteq> Inl NotFound"
      by (simp add: updateProduct_present [OF True Some] update_row_found)
    have via: "updateProduct i input now db = Update_via_Get i input now db"
      using True Some lookup_row_Some [OF Some]
      by (simp add: updateProduct_present Update_via_Get_def getProduct_present
            Repository_save_def hydrate_def)
    from upd via show ?thesis
      by (simp add: getProduct_present [OF True Some] deleteProduct_present [OF True Some])
  qed
qed

theorem NotFound_condition_shared_witness:
  "fst (updateProduct 1 \<lparr>dto_title = ''Speaker B'', dto_description = ''''\<rparr> 200 speaker_db) \<noteq> Inl NotFound \<and>
   fst (deleteProduct 1 speaker_db) \<noteq> Inl NotFound \<and>
   fst (getProduct 1 speaker_db) \<noteq> Inl NotFound \<and>
   fst (getProduct 7 speaker_db) = Inl NotFound \<and>
   fst (updateProduct 7 \<lparr>dto_title = ''Speaker B'', dto_description = ''''\<rparr> 200 speaker_db) = Inl NotFound \<and>
   fst (deleteProduct 7 speaker_db) = Inl NotFound"
proof -
  have 1: "fst (getProduct 1 speaker_db) \<noteq> Inl NotFound"
    by (simp add: getProduct_def Repository_findOne_def lookup_row_def int4_def speaker_db_def
          speaker_row_def)
  have 7: "fst (getProduct 7 speaker_db) = Inl NotFound"
    by (simp add: getProduct_def Repository_findOne_def lookup_row_def int4_def speaker_db_def
          speaker_row_def)
  from 1 7 NotFound_condition_shared [of 1 _ 200 speaker_db]
    NotFound_condition_shared [of 7 _ 200 speaker_db]
  show ?thesis by blast
qed

lemma createProduct_rejected:
  assumes "validate CreateProductDto_metadata b \<noteq> []"
  shows "Controller_createProduct b now db =
           (Inl (ValidationError (validate CreateProductDto_metadata b)), db)"
  using assms by (simp add: Controller_createProduct_def ValidationPipe_def)

lemma updateProduct_rejected:
  assumes "validate CreateProductDto_metadata b \<noteq> []"
  shows "Controller_updateProduct i b now db =
           (Inl (ValidationError (validate CreateProductDto_metadata b)), db)"
  using assms
  by (simp add: Controller_updateProduct_def UpdateProductDto_metadata_def ValidationPipe_def)

lemma failing_title:
  assumes "property b ''title'' = Some (JString t)" and "length t < 6 \<or> 32 < length t"
  shows "''title'' \<in> set (failing CreateProductDto_metadata b)"
  using assms by (auto simp: failing_def CreateProductDto_metadata_def)

lemma failing_missing:
  assumes "property b k = None" and "k = ''title'' \<or> k = ''description''"
  shows "k \<in> set (failing CreateProductDto_metadata b)"
  using assms by (auto simp: failing_def CreateProductDto_metadata_def)

lemma non_whitelisted_unknown:
  assumes "k \<in> set (map fst b)" and "k \<noteq> ''title''" and "k \<noteq> ''description''"
  shows "k \<in> set (non_whitelisted CreateProductDto_metadata b)"
  using assms by (auto simp: non_whitelisted_def CreateProductDto_metadata_def)

section \<open>Validation at the boundary\<close>

text \<open>
  Claim C4. A create request whose title is a string shorter than 6 or longer than 32
  characters fails with ValidationError naming \<open>title\<close>; the database is returned as
  it was, and neither the error nor the database depends on what is stored: the pipe
  decides before the service and its repository are reached.
\<close>

theorem title_out_of_bounds_rejected:
  assumes "property b ''title'' = Some (JString t)" and "length t < 6 \<or> 32 < length t"
  shows "''title'' \<in> set (validate CreateProductDto_metadata b) \<and>
         Controller_createProduct b now db =
           (Inl (ValidationError (validate CreateProductDto_metadata b)), db)"
proof -
  have bad: "''title'' \<in> set (validate CreateProductDto_metadata b)"
    using failing_title [OF assms] by (simp add: validate_def)
  then have "validate CreateProductDto_metadata b \<noteq> []"
    by auto
  with bad show ?thesis
    by (simp add: createProduct_rejected)
qed

theorem title_out_of_bounds_rejected_witness:
  "property [(''title'', JString ''abc''), (''description'', JString ''A bookshelf speaker with a warm sound..'')]
     ''title'' = Some (JString ''abc'') \<and>
   length ''abc'' < 6 \<and>
   Controller_createProduct
     [(''title'', JString ''abc''), (''description'', JString ''A bookshelf speaker with a warm sound..'')]
     100 speaker_db = (Inl (ValidationError [''title'']), speaker_db)"
proof -
  let ?b = "[(''title'', JString ''abc''),
             (''description'', JString ''A bookshelf speaker with a warm sound..'')]"
  have p: "property ?b ''title'' = Some (JString ''abc'')"
    by (simp add: property_def)
  have l: "length ''abc'' < 6 \<or> 32 < length ''abc''"
    by simp
  have v: "validate CreateProductDto_metadata ?b = [''title'']"
    by (simp add: validate_def non_whitelisted_def failing_def CreateProductDto_metadata_def
          property_def)
  from title_out_of_bounds_rejected [OF p l, of 100 speaker_db] p v show ?thesis
    by simp
qed

text \<open>
  Claim C9. A create or update body with a field that the request class does not
  declare fails with ValidationError naming that field, and the database is left as it
  was: the field is neither ignored nor stored.
\<close>

theorem undeclared_field_rejected:
  assumes "k \<in> set (map fst b)" and "k \<noteq> ''title''" and "k \<noteq> ''description''"
  shows "k \<in> set (validate CreateProductDto_metadata b) \<and>
         Controller_createProduct b now db =
           (Inl (ValidationError (validate CreateProductDto_metadata b)), db) \<and>
         k \<in> set (validate UpdateProductDto_metadata b) \<and>
         Controller_updateProduct i b now db =
           (Inl (ValidationError (validate UpdateProductDto_metadata b)), db)"
proof -
  have bad: "k \<in> set (validate CreateProductDto_metadata b)"
    using non_whitelisted_unknown [OF assms] by (simp add: validate_def)
  then have "validate CreateProductDto_metadata b \<noteq> []"
    by auto
  with bad show ?thesis
    by (simp add: createProduct_rejected updateProduct_rejected UpdateProductDto_metadata_def)
qed

theorem undeclared_field_rejected_witness:
  "''price'' \<in> set (map fst (speaker_body @ [(''price'', JNumber 3)])) \<and>
   Controller_createProduct (speaker_body @ [(''price'', JNumber 3)]) 100 empty_database =
     (Inl (ValidationError [''price'']), empty_database) \<and>
   Controller_updateProduct 1 (speaker_body @ [(''price'', JNumber 3)]) 100 speaker_db =
     (Inl (ValidationError [''price'']), speaker_db)"
proof -
  let ?b = "speaker_body @ [(''price'', JNumber 3)]"
  have k: "''price'' \<in> set (map fst ?b)"
    by simp
  have v: "validate CreateProductDto_metadata ?b = [''price'']"
    by (simp add: validate_def non_whitelisted_def failing_def CreateProductDto_metadata_def
          property_def speaker_body_def)
  from undeclared_field_rejected [OF k, of 100 empty_database 1]
    undeclared_field_rejected [OF k, of 100 speaker_db 1] k v
  show ?thesis
    by (simp add: UpdateProductDto_metadata_def)
qed

section \<open>The input of Update\<close>

text \<open>
  Claim C1, as stated, fails: an update body that omits \<open>description\<close> does not pass
  validation.
\<close>

theorem update_omitting_field_counterexample:
  "ValidationPipe UpdateProductDto_metadata [(''title'', JString ''Speaker B'')] =
     Inl (ValidationError [''description'']) \<and>
   Controller_updateProduct 1 [(''title'', JString ''Speaker B'')] 200 speaker_db =
     (Inl (ValidationError [''description'']), speaker_db)"
  by (simp add: Controller_updateProduct_def ValidationPipe_def UpdateProductDto_metadata_def
        validate_def non_whitelisted_def failing_def CreateProductDto_metadata_def property_def)

text \<open>
  Claim C1, amended. Both fields of an update input are required, as in a create
  input: the pipe accepts a body exactly when it has no other field and \<open>title\<close> and
  \<open>description\<close> are strings within their bounds (6 to 32 and 32 to 1024 characters);
  a body that omits a field is rejected with ValidationError, and the record keeps its
  current values, since the database is left as it was.
\<close>

theorem update_fields_required:
  "(ValidationPipe UpdateProductDto_metadata b = Inr input) =
     (set (map fst b) \<subseteq> {''title'', ''description''} \<and>
      property b ''title'' = Some (JString (dto_title input)) \<and>
      6 \<le> length (dto_title input) \<and> length (dto_title input) \<le> 32 \<and>
      property b ''description'' = Some (JString (dto_description input)) \<and>
      32 \<le> length (dto_description input) \<and> length (dto_description input) \<le> 1024) \<and>
   (property b ''title'' = None \<or> property b ''description'' = None \<longrightarrow>
      validate UpdateProductDto_metadata b \<noteq> [] \<and>
      Controller_updateProduct i b now db =
        (Inl (ValidationError (validate UpdateProductDto_metadata b)), db))"
proof -
  have "validate CreateProductDto_metadata b \<noteq> []"
    if "property b ''title'' = None \<or> property b ''description'' = None"
    using that failing_missing [of b "''title''"] failing_missing [of b "''description''"]
    by (auto simp: validate_def)
  then show ?thesis
    by (simp add: UpdateProductDto_metadata_def ValidationPipe_Inr updateProduct_rejected)
qed

theorem update_fields_required_witness:
  "ValidationPipe UpdateProductDto_metadata speaker_body =
     Inr \<lparr>dto_title = ''Speaker A'', dto_description = ''A bookshelf speaker with a warm sound..''\<rparr> \<and>
   property [(''title'', JString ''Speaker B'')] ''description'' = None \<and>
   Controller_updateProduct 1 [(''title'', JString ''Speaker B'')] 200 speaker_db =
     (Inl (ValidationError [''description'']), speaker_db)"
proof -
  let ?b = "[(''title'', JString ''Speaker B'')]"
  have v: "validate UpdateProductDto_metadata ?b = [''description'']"
    by (simp add: UpdateProductDto_metadata_def validate_def non_whitelisted_def failing_def
          CreateProductDto_metadata_def property_def)
  have m: "property ?b ''description'' = None"
    by (simp add: property_def)
  have ok: "set (map fst speaker_body) \<subseteq> {''title'', ''description''}"
    by (simp add: speaker_body_def)
  from update_fields_required [of speaker_body
      "\<lparr>dto_title = ''Speaker A'', dto_description = ''A bookshelf speaker with a warm sound..''\<rparr>"
      1 200 speaker_db]
    update_fields_required [of ?b _ 1 200 speaker_db] v m ok
  show ?thesis
    by (simp add: speaker_body_def property_def)
qed

text \<open>
  Claim C3, as stated, fails: Update with the empty input does not succeed on a
  persisted product.
\<close>

theorem update_empty_input_counterexample:
  "fst (Controller_updateProduct 1 [] 200 speaker_db) = Inl (ValidationError [''title'', ''description''])"
  by (simp add: Controller_updateProduct_def ValidationPipe_def UpdateProductDto_metadata_def
        validate_def non_whitelisted_def failing_def CreateProductDto_metadata_def property_def)

text \<open>
  Claim C3, amended. For every id and database, Update with the empty input is
  rejected with ValidationError naming \<open>title\<close> and \<open>description\<close>; the database is
  left as it was, so title, description, created_at and also updated_at of a persisted
  product are unchanged, and Get returns what it returned before.
\<close>

theorem update_empty_input_rejected:
  "Controller_updateProduct i [] now db = (Inl (ValidationError [''title'', ''description'']), db) \<and>
   Controller_getProduct i (snd (Controller_updateProduct i [] now db)) = Controller_getProduct i db"
  by (simp add: Controller_updateProduct_def ValidationPipe_def UpdateProductDto_metadata_def
        validate_def non_whitelisted_def failing_def CreateProductDto_metadata_def property_def)

theorem update_empty_input_rejected_witness:
  "Controller_updateProduct 1 [] 200 speaker_db = (Inl (ValidationError [''title'', ''description'']), speaker_db) \<and>
   Controller_getProduct 1 (snd (Controller_updateProduct 1 [] 200 speaker_db)) = (Inr (hydrate speaker_row), speaker_db)"
  using update_empty_input_rejected [of 1 200 speaker_db]
  by (simp add: Controller_getProduct_def getProduct_def Repository_findOne_def lookup_row_def
        int4_def speaker_db_def speaker_row_def)

section \<open>Delete\<close>

text \<open>
  Claim C6. On the stored product 1, Get returns the record with its id, and Delete
  returns the title, description, created_at and updated_at of the deleted record but
  no id: \<open>remove\<close> hands back the instance with its primary column reset. The row is
  gone from the table afterwards.
\<close>

theorem deleteProduct_returns_no_id:
  "Controller_getProduct 1 speaker_db =
     (Inr \<lparr>product_id = Some 1, title = ''Speaker A'',
           description = ''A bookshelf speaker with a warm sound..'',
           created_at = Some 100, updated_at = Some 100\<rparr>, speaker_db) \<and>
   Controller_deleteProduct 1 speaker_db =
     (Inr \<lparr>product_id = None, title = ''Speaker A'',
           description = ''A bookshelf speaker with a warm sound..'',
           created_at = Some 100, updated_at = Some 100\<rparr>,
      \<lparr>rows = [], seq = 1\<rparr>)"
  by (simp add: Controller_getProduct_def Controller_deleteProduct_def deleteProduct_def
        getProduct_def Repository_findOne_def lookup_row_def Repository_remove_def hydrate_def
        int4_def speaker_db_def speaker_row_def)

section \<open>Create\<close>



text \<open>
  When it succeeds: the texts have no U+0000, the sequence is not exhausted and is ahead
  of the ids of the table.
\<close>

lemma createProduct_fresh:
  assumes "seq_ahead db" and "int4 (seq db + 1)"
    and "text_ok (dto_title dto)" and "text_ok (dto_description dto)"
  shows "createProduct dto now db =
           (Inr \<lparr>product_id = Some (seq db + 1), title = dto_title dto,
                 description = dto_description dto,
                 created_at = Some now, updated_at = Some now\<rparr>,
            \<lparr>rows = rows db @
                [\<lparr>row_id = seq db + 1, row_title = dto_title dto,
                  row_description = dto_description dto,
                  row_created_at = now, row_updated_at = now\<rparr>],
             seq = seq db + 1\<rparr>)"
proof -
  have "\<not> list_ex (\<lambda>r. row_id r = seq db + 1) (rows db)"
    using assms(1) by (auto simp: seq_ahead_def list_all_iff list_ex_iff)
  with assms(2-4) show ?thesis
    by (simp add: createProduct_def Repository_save_def Repository_create_def insert_row_def
          hydrate_def storable_def)
qed

text \<open>
  A body that the pipe accepts and the database rejects: the title has nine characters,
  one of them U+0000. The request ends with a storage error and nothing is stored.
\<close>

lemma create_rejects_U0000:
  "Controller_createProduct
     [(''title'', JString (''Speak'' @ CHR 0x00 # ''er A'')),
      (''description'', JString ''A bookshelf speaker with a warm sound..'')]
     100 speaker_db = (Inl StorageError, speaker_db)"
  by (simp add: Controller_createProduct_def ValidationPipe_def validate_def non_whitelisted_def
        failing_def CreateProductDto_metadata_def property_def plainToInstance_def
        createProduct_def Repository_save_def Repository_create_def storable_def text_ok_def)



section \<open>The invariant of the stored rows\<close>

lemma rows_ok_mono: "rows_ok_until t db \<Longrightarrow> t \<le> t' \<Longrightarrow> rows_ok_until t' db"
  by (fastforce simp: rows_ok_until_def list_all_iff)

lemma rows_ok_insert_row:
  assumes "rows_ok_until t db" and "t \<le> now"
    and "6 \<le> length (title p)" "length (title p) \<le> 32"
    and "32 \<le> length (description p)" "length (description p) \<le> 1024"
    and "created_at p = None" "updated_at p = None"
  shows "rows_ok_until now (snd (insert_row i p now (db\<lparr>seq := s\<rparr>)))"
  using assms by (fastforce simp: insert_row_def rows_ok_until_def list_all_iff row_ok_def Let_def)

lemma rows_ok_createProduct:
  assumes "rows_ok_until t db" and "t \<le> now" and "ValidationPipe CreateProductDto_metadata b = Inr dto"
  shows "rows_ok_until now (snd (createProduct dto now db))"
  using assms(3) rows_ok_insert_row [OF assms(1,2), of "Repository_create dto"]
    rows_ok_mono [OF assms(1,2)]
  by (simp add: createProduct_def Repository_save_def Repository_create_def ValidationPipe_Inr)

lemma rows_ok_update_row:
  assumes "rows_ok_until t db" and "t \<le> now" and "r \<in> set (rows db)"
    and "6 \<le> length (title p)" "length (title p) \<le> 32"
    and "32 \<le> length (description p)" "length (description p) \<le> 1024"
    and "created_at p = Some (row_created_at r)" "updated_at p = Some (row_updated_at r)"
  shows "rows_ok_until now (snd (update_row r p now db))"
  using assms by (fastforce simp: update_row_def rows_ok_until_def list_all_iff row_ok_def Let_def)

lemma rows_ok_updateProduct:
  assumes "rows_ok_until t db" and "t \<le> now" and "ValidationPipe CreateProductDto_metadata b = Inr dto"
  shows "rows_ok_until now (snd (updateProduct i dto now db))"
proof (cases "int4 i")
  case False
  then show ?thesis
    using rows_ok_mono [OF assms(1,2)] by (simp add: updateProduct_out_of_range)
next
  case True
  show ?thesis
  proof (cases "lookup_row i db")
    case None
    then show ?thesis
      using rows_ok_mono [OF assms(1,2)] True by (simp add: lookup_row_None updateProduct_absent)
  next
    case (Some r)
    have "r \<in> set (rows db)"
      using lookup_row_Some [OF Some] by simp
    from rows_ok_update_row [OF assms(1,2) this] assms(3) show ?thesis
      by (simp add: updateProduct_present [OF True Some] hydrate_def ValidationPipe_Inr)
  qed
qed

lemma rows_ok_deleteProduct:
  assumes "rows_ok_until t db" and "t \<le> now"
  shows "rows_ok_until now (snd (deleteProduct i db))"
proof (cases "int4 i")
  case False
  then show ?thesis
    using rows_ok_mono [OF assms] by (simp add: deleteProduct_out_of_range)
next
  case True
  show ?thesis
  proof (cases "lookup_row i db")
    case None
    then show ?thesis
      using rows_ok_mono [OF assms] True by (simp add: lookup_row_None deleteProduct_absent)
  next
    case (Some r)
    then show ?thesis
      using rows_ok_mono [OF assms] True
      by (simp add: deleteProduct_present rows_ok_until_def list_all_iff)
  qed
qed

lemma rows_ok_handle:
  assumes "rows_ok_until t db" and "t \<le> now"
  shows "rows_ok_until now (handle req now db)"
proof (cases req)
  case GetProducts
  then show ?thesis
    using rows_ok_mono [OF assms] by (simp add: handle_def Controller_getProducts_def getProducts_def)
next
  case (GetProduct i)
  then show ?thesis
    using rows_ok_mono [OF assms]
    by (simp add: handle_def Controller_getProduct_def getProduct_def
          split: option.splits sum.splits)
next
  case (CreateProduct b)
  then show ?thesis
    using rows_ok_mono [OF assms] rows_ok_createProduct [OF assms]
    by (simp add: handle_def Controller_createProduct_def split: sum.splits)
next
  case (UpdateProduct i b)
  then show ?thesis
    using rows_ok_mono [OF assms] rows_ok_updateProduct [OF assms]
    by (simp add: handle_def Controller_updateProduct_def UpdateProductDto_metadata_def
          split: sum.splits)
next
  case (DeleteProduct i)
  then show ?thesis
    using rows_ok_deleteProduct [OF assms] by (simp add: handle_def Controller_deleteProduct_def)
qed

lemma rows_ok_run:
  assumes "rows_ok_until t db" and "sorted (map fst reqs)" and "\<forall>n\<in>set (map fst reqs). t \<le> n"
  shows "\<exists>t'. rows_ok_until t' (run reqs db)"
  using assms
proof (induction reqs arbitrary: t db)
  case Nil
  then show ?case by auto
next
  case (Cons a reqs)
  obtain now req where a: "a = (now, req)"
    by (cases a)
  have "rows_ok_until now (handle req now db)"
    using Cons.prems a by (simp add: rows_ok_handle)
  moreover have "sorted (map fst reqs)" and "\<forall>n\<in>set (map fst reqs). now \<le> n"
    using Cons.prems a by auto
  ultimately show ?case
    using Cons.IH a by auto
qed

lemma run_session: "run session empty_database = \<lparr>rows = [speaker_b_row], seq = 1\<rparr>"
  by (simp add: session_def handle_def Controller_createProduct_def Controller_updateProduct_def
        Controller_getProduct_def Controller_deleteProduct_def
        ValidationPipe_def UpdateProductDto_metadata_def
        validate_def non_whitelisted_def failing_def CreateProductDto_metadata_def property_def
        plainToInstance_def speaker_body_def speaker_b_body_def
        createProduct_def Repository_save_def Repository_create_def insert_row_def hydrate_def
        updateProduct_def Repository_preload_def Repository_findOne_def lookup_row_def
        update_row_def deleteProduct_def getProduct_def Repository_remove_def
        int4_def text_ok_def storable_def empty_database_def speaker_b_row_def Let_def)

text \<open>
  Claim C8. After any sequence of requests (list, get, create, update, delete) handled
  at non-decreasing times on the empty database, every stored row has a title of 6 to
  32 characters, a description of 32 to 1024 characters, and
  \<open>updated_at >= created_at\<close>.
\<close>

theorem persisted_rows_invariant:
  assumes "sorted (map fst reqs)" and "r \<in> set (rows (run reqs empty_database))"
  shows "6 \<le> length (row_title r) \<and> length (row_title r) \<le> 32 \<and>
         32 \<le> length (row_description r) \<and> length (row_description r) \<le> 1024 \<and>
         row_created_at r \<le> row_updated_at r"
proof (cases reqs)
  case Nil
  with assms show ?thesis by (simp add: empty_database_def)
next
  case (Cons a list)
  have "rows_ok_until (fst a) empty_database"
    by (simp add: rows_ok_until_def list_all_iff empty_database_def)
  moreover have "\<forall>n\<in>set (map fst reqs). fst a \<le> n"
    using assms(1) Cons by auto
  ultimately obtain t' where "rows_ok_until t' (run reqs empty_database)"
    using rows_ok_run assms(1) by blast
  with assms(2) show ?thesis
    by (auto simp: rows_ok_until_def list_all_iff row_ok_def)
qed

theorem persisted_rows_invariant_witness:
  "sorted (map fst session) \<and>
   rows (run session empty_database) = [speaker_b_row] \<and>
   6 \<le> length (row_title speaker_b_row) \<and> length (row_title speaker_b_row) \<le> 32 \<and>
   32 \<le> length (row_description speaker_b_row) \<and>
   length (row_description speaker_b_row) \<le> 1024 \<and>
   row_created_at speaker_b_row \<le> row_updated_at speaker_b_row"
proof -
  have s: "sorted (map fst session)"
    by (simp add: session_def)
  have m: "speaker_b_row \<in> set (rows (run session empty_database))"
    by (simp add: run_session)
  from persisted_rows_invariant [OF s m] s show ?thesis
    by (simp add: run_session)
qed

subsection \<open>The sequence stays ahead of the ids\<close>

text \<open>
  The condition \<open>seq_ahead\<close> of \<open>createProduct_fresh\<close> holds in every database that
  the requests of the controller build from the empty one.
\<close>

lemma seq_ahead_handle:
  assumes "seq_ahead db"
  shows "seq_ahead (handle req now db)"
proof (cases req)
  case GetProducts
  then show ?thesis
    using assms by (simp add: handle_def Controller_getProducts_def getProducts_def)
next
  case (GetProduct i)
  then show ?thesis
    using assms
    by (simp add: handle_def Controller_getProduct_def getProduct_def
          split: option.splits sum.splits)
next
  case (CreateProduct b)
  then show ?thesis
    using assms
    by (auto simp: handle_def Controller_createProduct_def createProduct_def Repository_save_def
          Repository_create_def insert_row_def Let_def seq_ahead_def list_all_iff
          split: sum.splits)
next
  case (UpdateProduct i b)
  show ?thesis
  proof (cases "int4 i \<and> lookup_row i db \<noteq> None")
    case False
    have "snd (updateProduct i dto now db) = db" for dto
    proof (cases "int4 i")
      case True
      with False have "i \<notin> set (map row_id (rows db))"
        by (simp add: lookup_row_None)
      with True show ?thesis
        by (simp add: updateProduct_absent)
    next
      case False
      then show ?thesis
        by (simp add: updateProduct_out_of_range)
    qed
    then show ?thesis
      using assms UpdateProduct
      by (simp add: handle_def Controller_updateProduct_def split: sum.splits)
  next
    case True
    then obtain r where r: "lookup_row i db = Some r" and i: "int4 i"
      by auto
    then show ?thesis
      using assms UpdateProduct lookup_row_Some [OF r]
      by (auto simp: handle_def Controller_updateProduct_def updateProduct_present
            update_row_def Let_def seq_ahead_def list_all_iff split: sum.splits)
  qed
next
  case (DeleteProduct i)
  show ?thesis
  proof (cases "int4 i \<and> lookup_row i db \<noteq> None")
    case False
    have "snd (deleteProduct i db) = db"
    proof (cases "int4 i")
      case True
      with False have "i \<notin> set (map row_id (rows db))"
        by (simp add: lookup_row_None)
      with True show ?thesis
        by (simp add: deleteProduct_absent)
    next
      case False
      then show ?thesis
        by (simp add: deleteProduct_out_of_range)
    qed
    then show ?thesis
      using assms DeleteProduct
      by (simp add: handle_def Controller_deleteProduct_def)
  next
    case True
    then obtain r where r: "lookup_row i db = Some r" and i: "int4 i"
      by auto
    then show ?thesis
      using assms DeleteProduct
      by (auto simp: handle_def Controller_deleteProduct_def deleteProduct_present
            seq_ahead_def list_all_iff)
  qed
qed

lemma seq_ahead_run: "seq_ahead db \<Longrightarrow> seq_ahead (run reqs db)"
  by (induction reqs arbitrary: db) (auto simp: seq_ahead_handle)

lemma seq_ahead_reachable: "seq_ahead (run reqs empty_database)"
  by (rule seq_ahead_run) (simp add: seq_ahead_def empty_database_def)

end
